theory Spec2Isabelle
  imports Main "HOL-Library.Word" "HOL-Library.Sublist"
begin

section \<open>Strings\<close>

text \<open>
  A JavaScript string is a sequence of UTF-16 code units. The literals of
  \<^verbatim>\<open>static/script.js\<close> are all ASCII and are written \<open>ascii ''...''\<close>.
\<close>

type_synonym jsstring = "16 word list"

definition ascii :: "string \<Rightarrow> jsstring" where
  "ascii cs = map of_char cs"

text \<open>
  Template literals interpolate \<^verbatim>\<open>response.status\<close>, a non-negative integer, as
  its decimal digits.
\<close>

fun decimal :: "nat \<Rightarrow> jsstring" where
  "decimal n =
     (if n < 10 then [of_nat (48 + n)]
      else decimal (n div 10) @ [of_nat (48 + n mod 10)])"

declare decimal.simps [simp del]

text \<open>
  \<^verbatim>\<open>String.prototype.trim\<close> strips the code units that are WhiteSpace or
  LineTerminator in ECMAScript (all of them lie in the basic plane) from both ends.
\<close>

definition isWhiteSpace :: "16 word \<Rightarrow> bool" where
  "isWhiteSpace c =
     (c \<in> set [0x9, 0xA, 0xB, 0xC, 0xD, 0x20, 0xA0, 0x1680, 0x2028, 0x2029,
               0x202F, 0x205F, 0x3000, 0xFEFF]
      \<or> (0x2000 \<le> c \<and> c \<le> 0x200A))"

definition trim :: "jsstring \<Rightarrow> jsstring" where
  "trim s = rev (dropWhile isWhiteSpace (rev (dropWhile isWhiteSpace s)))"

section \<open>The page\<close>

text \<open>
  The children of \<^verbatim>\<open>#chat-output\<close> are the \<^verbatim>\<open>div\<close>s that \<^verbatim>\<open>addMessage\<close> and
  \<^verbatim>\<open>addLoadingIndicator\<close> create: an optional id, a class list, and children that
  are a \<^verbatim>\<open>strong\<close> element holding one text or a text node.
\<close>

datatype role = User | Model

definition role_class :: "role \<Rightarrow> string" where
  "role_class r = (case r of User \<Rightarrow> ''user'' | Model \<Rightarrow> ''model'')"

datatype child = Strong jsstring | TextNode jsstring

datatype element = Div (div_id: "string option") (div_classes: "string list")
  (div_children: "child list")

definition child_text :: "child \<Rightarrow> jsstring" where
  "child_text c = (case c of Strong t \<Rightarrow> t | TextNode t \<Rightarrow> t)"

definition textContent :: "element \<Rightarrow> jsstring" where
  "textContent e = concat (map child_text (div_children e))"

text \<open>
  An entry of \<^verbatim>\<open>#history-list\<close>: its text, \<^verbatim>\<open>dataset.conversationId\<close> and
  \<^verbatim>\<open>title\<close> (\<open>None\<close> where the script never sets them), whether its class list
  holds \<^verbatim>\<open>active\<close>, and the conversation its click listener loads.
\<close>

record li =
  li_textContent :: jsstring
  li_conversationId :: "jsstring option"
  li_title :: "jsstring option"
  li_active :: bool
  li_click :: "jsstring option"

text \<open>The requests the script issues with \<^verbatim>\<open>fetch\<close>, and the calls awaiting an answer.\<close>

datatype request =
    Get_history
  | Get_conversation jsstring
  | Post_chat jsstring "jsstring option"

datatype task = HistoryTask | ConversationTask | ChatTask

text \<open>
  The state: the DOM elements the script holds, its two variables
  \<^verbatim>\<open>currentConversationId\<close> (\<open>None\<close> is \<^verbatim>\<open>null\<close>) and \<^verbatim>\<open>isLoading\<close>, the requests
  issued so far and the suspended calls. Scroll position, focus and the console are
  not part of it.
\<close>

record page =
  chatOutput :: "element list"
  promptValue :: jsstring
  promptDisabled :: bool
  sendDisabled :: bool
  historyList :: "li list"
  currentConversationId :: "jsstring option"
  isLoading :: bool
  requests :: "request list"
  inflight :: "task list"

section \<open>What the backend answers\<close>

text \<open>
  A \<^verbatim>\<open>fetch\<close> rejects with an error message, or resolves to a response whose
  \<^verbatim>\<open>ok\<close> is false (\<open>NotOk\<close>, with its status, which is then outside 200 to 299) or
  true (\<open>Ok\<close>); \<^verbatim>\<open>response.json()\<close> rejects with a message (\<open>NotJson\<close>) or
  resolves (\<open>Json\<close>). The script reads the body of a response that is not ok only
  after a chat call. The bodies have the types of the API the script consumes: a
  list of conversation summaries, a list of messages whose role is one of the two
  roles, a reply, and for a failed chat call an object with an optional \<^verbatim>\<open>detail\<close>
  string.
\<close>

datatype 'a body = NotJson jsstring | Json 'a

datatype ('e, 'a) fetched = Rejected jsstring | NotOk nat 'e | Ok "'a body"

record conversation =
  conv_id :: jsstring
  summary :: jsstring
  last_modified :: jsstring

record message =
  msg_role :: role
  msg_text :: jsstring

record reply =
  response :: jsstring
  conversation_id :: jsstring

type_synonym history_fetched = "(unit, conversation list) fetched"
type_synonym conversation_fetched = "(unit, message list) fetched"
type_synonym chat_fetched = "(jsstring option body, reply) fetched"

section \<open>The functions of the script\<close>

primrec forEach :: "('a \<Rightarrow> 's \<Rightarrow> 's) \<Rightarrow> 'a list \<Rightarrow> 's \<Rightarrow> 's" where
  "forEach f [] s = s"
| "forEach f (x # xs) s = forEach f xs (f x s)"

definition fetch :: "request \<Rightarrow> task \<Rightarrow> page \<Rightarrow> page" where
  "fetch req t s = s\<lparr>requests := requests s @ [req], inflight := inflight s @ [t]\<rparr>"

definition message_div :: "role \<Rightarrow> jsstring \<Rightarrow> element" where
  "message_div r txt =
     Div None [''message'', role_class r]
       [Strong (if r = User then ascii ''You:'' else ascii ''Model:''),
        TextNode (ascii '' '' @ txt)]"

definition addMessage :: "role \<Rightarrow> jsstring \<Rightarrow> page \<Rightarrow> page" where
  "addMessage r txt s = s\<lparr>chatOutput := chatOutput s @ [message_div r txt]\<rparr>"

definition loading_div :: element where
  "loading_div =
     Div (Some ''loading-indicator'') [''message'', ''model'', ''loading'']
       [TextNode (ascii ''Model is thinking...'')]"

definition addLoadingIndicator :: "page \<Rightarrow> page" where
  "addLoadingIndicator s = s\<lparr>chatOutput := chatOutput s @ [loading_div]\<rparr>"

definition is_indicator :: "element \<Rightarrow> bool" where
  "is_indicator e = (div_id e = Some ''loading-indicator'')"

text \<open>
  \<^verbatim>\<open>getElementById\<close> finds the first element with the id, and \<^verbatim>\<open>remove\<close> detaches
  it; the script gives that id to children of the transcript only.
\<close>

fun remove_first :: "('a \<Rightarrow> bool) \<Rightarrow> 'a list \<Rightarrow> 'a list" where
  "remove_first P [] = []"
| "remove_first P (x # xs) = (if P x then xs else x # remove_first P xs)"

definition removeLoadingIndicator :: "page \<Rightarrow> page" where
  "removeLoadingIndicator s = s\<lparr>chatOutput := remove_first is_indicator (chatOutput s)\<rparr>"

definition clearChatOutput :: "page \<Rightarrow> page" where
  "clearChatOutput s = addMessage Model (ascii ''Started a new chat.'') (s\<lparr>chatOutput := []\<rparr>)"

definition setLoading :: "bool \<Rightarrow> page \<Rightarrow> page" where
  "setLoading loading s =
     (let s1 = s\<lparr>isLoading := loading, sendDisabled := loading, promptDisabled := loading\<rparr>
      in if loading then addLoadingIndicator s1 else removeLoadingIndicator s1)"

text \<open>An \<^verbatim>\<open>li\<close> that \<^verbatim>\<open>innerHTML\<close> builds from a constant: text only.\<close>

definition plain_li :: "jsstring \<Rightarrow> li" where
  "plain_li t = \<lparr>li_textContent = t, li_conversationId = None, li_title = None,
     li_active = False, li_click = None\<rparr>"

text \<open>
  The body of the loop over the conversations in \<^verbatim>\<open>loadHistoryList\<close>: the \<^verbatim>\<open>li\<close>
  it builds for a conversation, and its appending to the list.
\<close>

definition history_entry :: "jsstring option \<Rightarrow> conversation \<Rightarrow> li" where
  "history_entry current conv =
     \<lparr>li_textContent = summary conv,
      li_conversationId = Some (conv_id conv),
      li_title = Some (ascii ''ID: '' @ conv_id conv @ [0xA] @ ascii ''Last Modified: ''
                       @ last_modified conv),
      li_active = (Some (conv_id conv) = current),
      li_click = Some (conv_id conv)\<rparr>"

definition append_conversation :: "conversation \<Rightarrow> page \<Rightarrow> page" where
  "append_conversation conv s =
     s\<lparr>historyList := historyList s @ [history_entry (currentConversationId s) conv]\<rparr>"

text \<open>
  Each \<^verbatim>\<open>async\<close> function is two definitions: the function up to its
  \<^verbatim>\<open>await fetch\<close>, under its own name, and its continuation once the call has
  settled, \<^verbatim>\<open>try\<close>, \<^verbatim>\<open>catch\<close> and \<^verbatim>\<open>finally\<close> included, under the name with
  \<open>_settled\<close>.
\<close>

definition loadHistoryList :: "page \<Rightarrow> page" where
  "loadHistoryList s =
     fetch Get_history HistoryTask (s\<lparr>historyList := [plain_li (ascii ''Loading history...'')]\<rparr>)"

definition history_error :: "page \<Rightarrow> page" where
  "history_error s = s\<lparr>historyList := [plain_li (ascii ''Error loading history.'')]\<rparr>"

definition loadHistoryList_settled :: "history_fetched \<Rightarrow> page \<Rightarrow> page" where
  "loadHistoryList_settled r s =
     (case r of
        Rejected msg \<Rightarrow> history_error s
      | NotOk status u \<Rightarrow> history_error s
      | Ok (NotJson msg) \<Rightarrow> history_error s
      | Ok (Json conversations) \<Rightarrow>
          (let s1 = s\<lparr>historyList := []\<rparr>
           in if length conversations = 0
              then s1\<lparr>historyList := [plain_li (ascii ''No past conversations found.'')]\<rparr>
              else forEach append_conversation conversations s1))"

text \<open>\<^verbatim>\<open>classList.toggle('active', force)\<close> on every entry of the history list.\<close>

definition toggle_active :: "jsstring \<Rightarrow> page \<Rightarrow> page" where
  "toggle_active cid s =
     s\<lparr>historyList := map (\<lambda>e. e\<lparr>li_active := (li_conversationId e = Some cid)\<rparr>) (historyList s)\<rparr>"

definition loadConversation :: "jsstring \<Rightarrow> page \<Rightarrow> page" where
  "loadConversation conversationId s =
     (if isLoading s then s
      else
        let s1 = setLoading True s;
            s2 = clearChatOutput s1;
            s3 = s2\<lparr>currentConversationId := Some conversationId\<rparr>;
            s4 = toggle_active conversationId s3
        in fetch (Get_conversation conversationId) ConversationTask s4)"

definition loadConversation_settled :: "conversation_fetched \<Rightarrow> page \<Rightarrow> page" where
  "loadConversation_settled r s =
     setLoading False
       (case r of
          Rejected msg \<Rightarrow> addMessage Model (ascii ''Error loading conversation: '' @ msg) s
        | NotOk status u \<Rightarrow>
            if status = 404 then addMessage Model (ascii ''Error: Conversation not found.'') s
            else addMessage Model
                   (ascii ''Error loading conversation: '' @ ascii ''HTTP error! status: ''
                    @ decimal status) s
        | Ok (NotJson msg) \<Rightarrow> addMessage Model (ascii ''Error loading conversation: '' @ msg) s
        | Ok (Json messages) \<Rightarrow>
            forEach (\<lambda>msg. addMessage (msg_role msg) (msg_text msg)) messages s)"

definition sendPrompt :: "page \<Rightarrow> page" where
  "sendPrompt s =
     (let promptText = trim (promptValue s)
      in if promptText = [] \<or> isLoading s then s
         else
           let s1 = setLoading True s;
               s2 = addMessage User promptText s1;
               s3 = s2\<lparr>promptValue := []\<rparr>
           in fetch (Post_chat promptText (currentConversationId s3)) ChatTask s3)"

text \<open>The \<^verbatim>\<open>catch\<close> block of \<^verbatim>\<open>sendPrompt\<close>, for an error with the given message.\<close>

definition sendPrompt_catch :: "jsstring \<Rightarrow> page \<Rightarrow> page" where
  "sendPrompt_catch msg s = addMessage Model (ascii ''Error: '' @ msg) (removeLoadingIndicator s)"

text \<open>
  The message of the error thrown for a response that is not ok:
  \<^verbatim>\<open>errorData.detail || errorDetail\<close>, where the empty string is falsy and a body
  that is not JSON leaves the default.
\<close>

definition error_detail :: "nat \<Rightarrow> jsstring option body \<Rightarrow> jsstring" where
  "error_detail status b =
     (let errorDetail = ascii ''HTTP error! status: '' @ decimal status
      in case b of
           NotJson e \<Rightarrow> errorDetail
         | Json None \<Rightarrow> errorDetail
         | Json (Some detail) \<Rightarrow> if detail \<noteq> [] then detail else errorDetail)"

definition sendPrompt_settled :: "chat_fetched \<Rightarrow> page \<Rightarrow> page" where
  "sendPrompt_settled r s =
     setLoading False
       (case r of
          Rejected msg \<Rightarrow> sendPrompt_catch msg s
        | NotOk status b \<Rightarrow> sendPrompt_catch (error_detail status b) (removeLoadingIndicator s)
        | Ok (NotJson msg) \<Rightarrow> sendPrompt_catch msg (removeLoadingIndicator s)
        | Ok (Json data) \<Rightarrow>
            (let s1 = addMessage Model (response data) (removeLoadingIndicator s)
             in if currentConversationId s1 \<noteq> Some (conversation_id data)
                then
                  let s2 = s1\<lparr>currentConversationId := Some (conversation_id data)\<rparr>;
                      s3 = loadHistoryList s2
                  in toggle_active (conversation_id data) s3
                else s1))"

definition startNewChat :: "page \<Rightarrow> page" where
  "startNewChat s =
     (if isLoading s then s
      else
        let s1 = s\<lparr>currentConversationId := None\<rparr>;
            s2 = clearChatOutput s1;
            s3 = s2\<lparr>promptValue := []\<rparr>
        in s3\<lparr>historyList :=
               map (\<lambda>e. if li_active e then e\<lparr>li_active := False\<rparr> else e) (historyList s3)\<rparr>)"

section \<open>Events\<close>

text \<open>
  Everything runs on one thread: the page changes when a listener runs or when a
  suspended call is resumed with the answer of the backend. \<open>DOMContentLoaded\<close> is
  the script's top-level handler, applied to the page as the document declares it;
  \<open>step\<close> is one turn of the event loop. A \<open>Settled\<close> event resumes a call of its
  kind that is in flight, and is no event at all when there is none. The answer it
  carries is the whole outcome of the call, so the continuation after \<^verbatim>\<open>await fetch\<close>
  and the one after \<^verbatim>\<open>await response.json()\<close> run as one step; between the two
  the script only removes the loading indicator. \<open>Input v\<close> is the user editing the
  prompt, which a disabled input does not allow; \<open>ClickHistory i\<close> is a click on
  the entry at position \<open>i\<close> of the history list.
\<close>

definition DOMContentLoaded :: "page \<Rightarrow> page" where
  "DOMContentLoaded doc =
     loadHistoryList
       (doc\<lparr>currentConversationId := None, isLoading := False, requests := [], inflight := []\<rparr>)"

datatype event =
    Send
  | NewChat
  | ClickHistory nat
  | Input jsstring
  | HistorySettled history_fetched
  | ConversationSettled conversation_fetched
  | ChatSettled chat_fetched

definition resume :: "task \<Rightarrow> (page \<Rightarrow> page) \<Rightarrow> page \<Rightarrow> page" where
  "resume t k s = (if t \<in> set (inflight s) then k (s\<lparr>inflight := remove1 t (inflight s)\<rparr>) else s)"

definition step :: "event \<Rightarrow> page \<Rightarrow> page" where
  "step e s =
     (case e of
        Send \<Rightarrow> sendPrompt s
      | NewChat \<Rightarrow> startNewChat s
      | ClickHistory i \<Rightarrow>
          (if i < length (historyList s)
           then (case li_click (historyList s ! i) of
                   None \<Rightarrow> s
                 | Some cid \<Rightarrow> loadConversation cid s)
           else s)
      | Input v \<Rightarrow> (if promptDisabled s then s else s\<lparr>promptValue := v\<rparr>)
      | HistorySettled r \<Rightarrow> resume HistoryTask (loadHistoryList_settled r) s
      | ConversationSettled r \<Rightarrow> resume ConversationTask (loadConversation_settled r) s
      | ChatSettled r \<Rightarrow> resume ChatTask (sendPrompt_settled r) s)"

definition run :: "event list \<Rightarrow> page \<Rightarrow> page" where
  "run evs s = forEach step evs s"

definition messages :: "page \<Rightarrow> element list" where
  "messages s = filter (\<lambda>e. \<not> is_indicator e) (chatOutput s)"

section \<open>Properties of states and runs\<close>

text \<open>
  \<open>guarded\<close>: the calls in flight other than history fetches are one when
  \<^verbatim>\<open>isLoading\<close> is set and none otherwise. \<open>pending t\<close>: the page is loading and \<open>t\<close>
  is that one call. \<open>settles t e\<close>: the event \<open>e\<close> resumes a call of kind \<open>t\<close>.
  \<open>idle\<close>: the page is interactive.
\<close>

definition guarded :: "page \<Rightarrow> bool" where
  "guarded s =
     (length (filter (\<lambda>t. t \<noteq> HistoryTask) (inflight s)) = (if isLoading s then 1 else 0))"

definition pending :: "task \<Rightarrow> page \<Rightarrow> bool" where
  "pending t s = (isLoading s \<and> filter (\<lambda>u. u \<noteq> HistoryTask) (inflight s) = [t])"

definition settles :: "task \<Rightarrow> event \<Rightarrow> bool" where
  "settles t e =
     (case e of
        HistorySettled r \<Rightarrow> t = HistoryTask
      | ConversationSettled r \<Rightarrow> t = ConversationTask
      | ChatSettled r \<Rightarrow> t = ChatTask
      | _ \<Rightarrow> False)"

definition idle :: "page \<Rightarrow> bool" where
  "idle s =
     (\<not> isLoading s \<and> \<not> sendDisabled s \<and> \<not> promptDisabled s
      \<and> filter is_indicator (chatOutput s) = [])"

text \<open>A document with an empty transcript, an empty input and both controls enabled.\<close>

definition blank_document :: page where
  "blank_document =
     \<lparr>chatOutput = [], promptValue = [], promptDisabled = False, sendDisabled = False,
      historyList = [], currentConversationId = None, isLoading = False,
      requests = [], inflight = []\<rparr>"

text \<open>
  A first exchange: the history arrives empty, the user sends \<^verbatim>\<open>hi\<close>, the backend
  answers in a new conversation \<^verbatim>\<open>c1\<close>, the refreshed history lists it, and the user
  types again.
\<close>

definition first_exchange :: "event list" where
  "first_exchange =
     [HistorySettled (Ok (Json [])), Input (ascii ''hi''), Send,
      ChatSettled (Ok (Json \<lparr>response = ascii ''hello!'', conversation_id = ascii ''c1''\<rparr>)),
      HistorySettled (Ok (Json [\<lparr>conv_id = ascii ''c1'', summary = ascii ''hi'',
         last_modified = ascii ''today''\<rparr>])),
      Input (ascii ''more'')]"

section \<open>Auxiliary facts\<close>

subsection \<open>Loops and frames\<close>

lemmas basic_defs = fetch_def addMessage_def addLoadingIndicator_def removeLoadingIndicator_def
  clearChatOutput_def setLoading_def toggle_active_def loadHistoryList_def history_error_def
  sendPrompt_catch_def

lemmas script_defs = step_def resume_def sendPrompt_def sendPrompt_settled_def
  loadConversation_def loadConversation_settled_def loadHistoryList_settled_def startNewChat_def
  basic_defs append_conversation_def history_entry_def plain_li_def Let_def

lemma forEach_append_conversation:
  "forEach append_conversation cs s =
     s\<lparr>historyList := historyList s @ map (history_entry (currentConversationId s)) cs\<rparr>"
  by (induction cs arbitrary: s) (simp_all add: append_conversation_def)

lemma forEach_addMessage:
  "forEach (\<lambda>m. addMessage (msg_role m) (msg_text m)) ms s =
     s\<lparr>chatOutput := chatOutput s @ map (\<lambda>m. message_div (msg_role m) (msg_text m)) ms\<rparr>"
  by (induction ms arbitrary: s) (simp_all add: addMessage_def)

lemma history_settled_frame:
  "chatOutput (loadHistoryList_settled r s) = chatOutput s"
  "isLoading (loadHistoryList_settled r s) = isLoading s"
  "currentConversationId (loadHistoryList_settled r s) = currentConversationId s"
  "requests (loadHistoryList_settled r s) = requests s"
  "inflight (loadHistoryList_settled r s) = inflight s"
  "promptValue (loadHistoryList_settled r s) = promptValue s"
  "promptDisabled (loadHistoryList_settled r s) = promptDisabled s"
  "sendDisabled (loadHistoryList_settled r s) = sendDisabled s"
  by (simp_all add: loadHistoryList_settled_def history_error_def forEach_append_conversation Let_def
      split: fetched.splits body.splits)

lemma historyList_loaded:
  "historyList (loadHistoryList_settled r s) =
     (case r of
        Ok (Json conversations) \<Rightarrow>
          if conversations = [] then [plain_li (ascii ''No past conversations found.'')]
          else map (history_entry (currentConversationId s)) conversations
      | _ \<Rightarrow> [plain_li (ascii ''Error loading history.'')])"
  by (simp add: loadHistoryList_settled_def history_error_def forEach_append_conversation Let_def
      split: fetched.splits body.splits)

lemma sendPrompt_settled_fields:
  "isLoading (sendPrompt_settled r s) = False"
  "sendDisabled (sendPrompt_settled r s) = False"
  "promptDisabled (sendPrompt_settled r s) = False"
  "filter (\<lambda>t. t \<noteq> HistoryTask) (inflight (sendPrompt_settled r s)) = filter (\<lambda>t. t \<noteq> HistoryTask) (inflight s)"
  by (simp_all add: sendPrompt_settled_def basic_defs Let_def
      split: fetched.splits body.splits)

lemma loadConversation_settled_fields:
  "isLoading (loadConversation_settled r s) = False"
  "sendDisabled (loadConversation_settled r s) = False"
  "promptDisabled (loadConversation_settled r s) = False"
  "inflight (loadConversation_settled r s) = inflight s"
  "currentConversationId (loadConversation_settled r s) = currentConversationId s"
  "historyList (loadConversation_settled r s) = historyList s"
  "requests (loadConversation_settled r s) = requests s"
  by (simp_all add: loadConversation_settled_def basic_defs Let_def forEach_addMessage
      split: fetched.splits body.splits)

subsection \<open>The loading flag guards the calls in flight\<close>

lemma only_op:
  assumes "length (filter (\<lambda>t. t \<noteq> HistoryTask) ts) = 1" "t \<in> set ts" "t \<noteq> HistoryTask"
  shows "filter (\<lambda>t. t \<noteq> HistoryTask) ts = [t]"
proof -
  from assms(1) obtain u where u: "filter (\<lambda>t. t \<noteq> HistoryTask) ts = [u]"
    by (auto simp: length_Suc_conv)
  from assms(2,3) have "t \<in> set (filter (\<lambda>t. t \<noteq> HistoryTask) ts)" by simp
  with u show ?thesis by simp
qed

lemma guarded_step: "guarded s \<Longrightarrow> guarded (step e s)"
proof (cases e)
  case Send
  then show "guarded s \<Longrightarrow> guarded (step e s)"
    by (auto simp add: step_def guarded_def sendPrompt_def basic_defs Let_def split: if_splits)
next
  case NewChat
  then show "guarded s \<Longrightarrow> guarded (step e s)"
    by (auto simp add: step_def guarded_def startNewChat_def basic_defs Let_def split: if_splits)
next
  case (ClickHistory i)
  then show "guarded s \<Longrightarrow> guarded (step e s)"
    by (auto simp add: step_def guarded_def loadConversation_def basic_defs Let_def split: option.splits if_splits)
next
  case (Input v)
  then show "guarded s \<Longrightarrow> guarded (step e s)"
    by (auto simp add: step_def guarded_def split: if_splits)
next
  case (HistorySettled r)
  then show "guarded s \<Longrightarrow> guarded (step e s)"
    by (auto simp add: step_def guarded_def resume_def history_settled_frame filter_remove1 split: if_splits)
next
  case (ConversationSettled r)
  show "guarded s \<Longrightarrow> guarded (step e s)"
  proof (cases "ConversationTask \<in> set (inflight s)")
    case True
    assume g: "guarded s"
    have l: "isLoading s"
      using g True by (auto simp: guarded_def filter_empty_conv split: if_splits)
    with g True have "filter (\<lambda>t. t \<noteq> HistoryTask) (inflight s) = [ConversationTask]"
      by (simp add: guarded_def only_op)
    then show ?thesis using True ConversationSettled
      by (simp add: step_def guarded_def resume_def loadConversation_settled_fields filter_remove1)
  next
    case False
    then show "guarded s \<Longrightarrow> guarded (step e s)" using ConversationSettled
      by (simp add: step_def resume_def)
  qed
next
  case (ChatSettled r)
  show "guarded s \<Longrightarrow> guarded (step e s)"
  proof (cases "ChatTask \<in> set (inflight s)")
    case True
    assume g: "guarded s"
    have l: "isLoading s"
      using g True by (auto simp: guarded_def filter_empty_conv split: if_splits)
    with g True have "filter (\<lambda>t. t \<noteq> HistoryTask) (inflight s) = [ChatTask]"
      by (simp add: guarded_def only_op)
    then show ?thesis using True ChatSettled
      by (simp add: step_def guarded_def resume_def sendPrompt_settled_fields filter_remove1)
  next
    case False
    then show "guarded s \<Longrightarrow> guarded (step e s)" using ChatSettled
      by (simp add: step_def resume_def)
  qed
qed

lemma guarded_run: "guarded s \<Longrightarrow> guarded (run evs s)"
  unfolding run_def by (induction evs arbitrary: s) (simp_all add: guarded_step)

lemma guarded_DOMContentLoaded: "guarded (DOMContentLoaded doc)"
  by (simp add: guarded_def DOMContentLoaded_def loadHistoryList_def fetch_def)

lemma filter_chat_tasks:
  "filter (\<lambda>t. t = ChatTask) ts = filter (\<lambda>t. t = ChatTask) (filter (\<lambda>t. t \<noteq> HistoryTask) ts)"
  by (induction ts) simp_all

lemma chat_tasks_le:
  assumes "guarded s"
  shows "length (filter (\<lambda>t. t = ChatTask) (inflight s)) \<le> 1"
proof -
  have "length (filter (\<lambda>t. t = ChatTask) (filter (\<lambda>t. t \<noteq> HistoryTask) (inflight s)))
        \<le> length (filter (\<lambda>t. t \<noteq> HistoryTask) (inflight s))"
    by (rule length_filter_le)
  then have "length (filter (\<lambda>t. t = ChatTask) (inflight s))
        \<le> length (filter (\<lambda>t. t \<noteq> HistoryTask) (inflight s))"
    using filter_chat_tasks [of "inflight s"] by simp
  with assms show ?thesis by (simp add: guarded_def split: if_splits)
qed

subsection \<open>While a call is pending, other events leave the transcript alone\<close>

lemma pending_in_flight: "pending t s \<Longrightarrow> t \<in> set (inflight s)"
proof -
  assume "pending t s"
  then have "t \<in> set (filter (\<lambda>u. u \<noteq> HistoryTask) (inflight s))"
    by (simp add: pending_def)
  then show ?thesis by simp
qed

lemma pending_other: "pending t s \<Longrightarrow> u \<noteq> t \<Longrightarrow> u \<noteq> HistoryTask \<Longrightarrow> u \<notin> set (inflight s)"
proof
  assume p: "pending t s" and u: "u \<noteq> t" "u \<noteq> HistoryTask" and m: "u \<in> set (inflight s)"
  from m u(2) have "u \<in> set (filter (\<lambda>u. u \<noteq> HistoryTask) (inflight s))" by simp
  with p u(1) show False by (simp add: pending_def)
qed

lemma pending_not_history: "pending t s \<Longrightarrow> t \<noteq> HistoryTask"
proof
  assume p: "pending t s" and h: "t = HistoryTask"
  from p have "t \<in> set (filter (\<lambda>u. u \<noteq> HistoryTask) (inflight s))"
    by (simp add: pending_def)
  with h show False by simp
qed

lemma pending_step:
  assumes p: "pending t s" and e: "\<not> settles t e"
  shows "pending t (step e s) \<and> chatOutput (step e s) = chatOutput s
         \<and> currentConversationId (step e s) = currentConversationId s
         \<and> requests (step e s) = requests s"
proof (cases e)
  case Send
  with p show ?thesis by (simp add: step_def sendPrompt_def pending_def)
next
  case NewChat
  with p show ?thesis by (simp add: step_def startNewChat_def pending_def)
next
  case (ClickHistory i)
  with p show ?thesis by (simp add: step_def loadConversation_def pending_def split: option.splits)
next
  case (Input v)
  with p show ?thesis by (simp add: step_def pending_def)
next
  case (HistorySettled r)
  from p have "HistoryTask \<noteq> t" using pending_not_history by blast
  with HistorySettled p show ?thesis
    by (simp add: step_def resume_def pending_def history_settled_frame filter_remove1)
next
  case (ConversationSettled r)
  with e have "ConversationTask \<noteq> t" by (simp add: settles_def)
  with p have "ConversationTask \<notin> set (inflight s)" by (simp add: pending_other)
  with ConversationSettled show ?thesis using p by (simp add: step_def resume_def)
next
  case (ChatSettled r)
  with e have "ChatTask \<noteq> t" by (simp add: settles_def)
  with p have "ChatTask \<notin> set (inflight s)" by (simp add: pending_other)
  with ChatSettled show ?thesis using p by (simp add: step_def resume_def)
qed

lemma pending_run:
  "pending t s \<Longrightarrow> \<forall>e\<in>set evs. \<not> settles t e \<Longrightarrow>
   pending t (run evs s) \<and> chatOutput (run evs s) = chatOutput s
   \<and> currentConversationId (run evs s) = currentConversationId s
   \<and> requests (run evs s) = requests s"
proof (induction evs arbitrary: s)
  case Nil
  then show ?case by (simp add: run_def)
next
  case (Cons e evs)
  from Cons.prems have st: "pending t (step e s) \<and> chatOutput (step e s) = chatOutput s
         \<and> currentConversationId (step e s) = currentConversationId s
         \<and> requests (step e s) = requests s"
    by (simp add: pending_step)
  from Cons.prems have "\<forall>e\<in>set evs. \<not> settles t e" by simp
  with st Cons.IH [of "step e s"] show ?case by (simp add: run_def)
qed

lemma pending_sendPrompt:
  "guarded s \<Longrightarrow> \<not> isLoading s \<Longrightarrow> trim (promptValue s) \<noteq> [] \<Longrightarrow> pending ChatTask (sendPrompt s)"
  by (simp add: guarded_def pending_def sendPrompt_def Let_def basic_defs)

lemma pending_loadConversation:
  "guarded s \<Longrightarrow> \<not> isLoading s \<Longrightarrow> pending ConversationTask (loadConversation cid s)"
  by (simp add: guarded_def pending_def loadConversation_def Let_def basic_defs)

lemma step_settles_chat:
  "pending ChatTask s \<Longrightarrow>
   step (ChatSettled r) s = sendPrompt_settled r (s\<lparr>inflight := remove1 ChatTask (inflight s)\<rparr>)"
  by (simp add: step_def resume_def pending_in_flight)

lemma step_settles_conversation:
  "pending ConversationTask s \<Longrightarrow>
   step (ConversationSettled r) s
     = loadConversation_settled r (s\<lparr>inflight := remove1 ConversationTask (inflight s)\<rparr>)"
  by (simp add: step_def resume_def pending_in_flight)

subsection \<open>Messages and the loading indicator\<close>

lemma filter_remove_first:
  "filter (\<lambda>x. \<not> P x) (remove_first P xs) = filter (\<lambda>x. \<not> P x) xs"
  by (induction xs) simp_all

lemma filter_remove_first_tl:
  "filter P (remove_first P xs) = tl (filter P xs)"
  by (induction xs) simp_all

lemma tl_short: "length xs \<le> 1 \<Longrightarrow> tl xs = []"
  by (cases xs) simp_all

lemma messages_removeLoadingIndicator [simp]:
  "messages (removeLoadingIndicator s) = messages s"
  by (simp add: messages_def removeLoadingIndicator_def filter_remove_first)

lemma not_indicator_message_div [simp]: "\<not> is_indicator (message_div r txt)"
  by (simp add: is_indicator_def message_div_def)

lemma is_indicator_loading_div [simp]: "is_indicator loading_div"
  by (simp add: is_indicator_def loading_div_def)

lemma messages_addMessage [simp]:
  "messages (addMessage r txt s) = messages s @ [message_div r txt]"
  by (simp add: messages_def addMessage_def)

lemma messages_setLoading [simp]: "messages (setLoading b s) = messages s"
  by (simp add: setLoading_def Let_def messages_def addLoadingIndicator_def
      removeLoadingIndicator_def filter_remove_first)

lemma messages_frame [simp]:
  "messages (s\<lparr>inflight := ts\<rparr>) = messages s"
  "messages (s\<lparr>requests := rs\<rparr>) = messages s"
  "messages (s\<lparr>historyList := h\<rparr>) = messages s"
  "messages (s\<lparr>currentConversationId := c\<rparr>) = messages s"
  "messages (s\<lparr>promptValue := v\<rparr>) = messages s"
  by (simp_all add: messages_def)

lemma messages_sendPrompt:
  "trim (promptValue s) \<noteq> [] \<Longrightarrow> \<not> isLoading s \<Longrightarrow>
   messages (sendPrompt s) = messages s @ [message_div User (trim (promptValue s))]"
  by (simp add: sendPrompt_def Let_def fetch_def)

lemma messages_sendPrompt_settled:
  "messages (sendPrompt_settled r s) = messages s @
     [message_div Model
        (case r of
           Rejected msg \<Rightarrow> ascii ''Error: '' @ msg
         | NotOk status b \<Rightarrow> ascii ''Error: '' @ error_detail status b
         | Ok (NotJson msg) \<Rightarrow> ascii ''Error: '' @ msg
         | Ok (Json data) \<Rightarrow> response data)]"
  by (simp add: sendPrompt_settled_def sendPrompt_catch_def Let_def loadHistoryList_def
      fetch_def toggle_active_def split: fetched.splits body.splits)

lemma indicators_sendPrompt_settled:
  assumes "length (filter is_indicator (chatOutput s)) \<le> 1"
  shows "filter is_indicator (chatOutput (sendPrompt_settled r s)) = []"
proof -
  from assms have "tl (filter is_indicator (chatOutput s)) = []" by (rule tl_short)
  then show ?thesis
    by (simp add: sendPrompt_settled_def basic_defs Let_def filter_remove_first_tl
        split: fetched.splits body.splits)
qed

lemma indicators_loadConversation_settled:
  assumes "filter is_indicator (chatOutput s) = []"
  shows "filter is_indicator (chatOutput (loadConversation_settled r s)) = []"
  using assms
  by (simp add: loadConversation_settled_def basic_defs Let_def filter_remove_first_tl
      forEach_addMessage is_indicator_def message_div_def split: fetched.splits body.splits)

subsection \<open>What each function writes\<close>

lemma chatOutput_sendPrompt:
  "\<not> isLoading s \<Longrightarrow> trim (promptValue s) \<noteq> [] \<Longrightarrow>
   chatOutput (sendPrompt s) = chatOutput s @ [loading_div, message_div User (trim (promptValue s))]"
  by (simp add: sendPrompt_def basic_defs Let_def)

lemma sendPrompt_fields:
  "\<not> isLoading s \<Longrightarrow> trim (promptValue s) \<noteq> [] \<Longrightarrow>
   requests (sendPrompt s) = requests s @ [Post_chat (trim (promptValue s)) (currentConversationId s)]
   \<and> currentConversationId (sendPrompt s) = currentConversationId s
   \<and> historyList (sendPrompt s) = historyList s
   \<and> promptValue (sendPrompt s) = []"
  by (simp add: sendPrompt_def basic_defs Let_def)

lemma loadConversation_fields:
  "\<not> isLoading s \<Longrightarrow>
   chatOutput (loadConversation cid s) = [message_div Model (ascii ''Started a new chat.'')]
   \<and> currentConversationId (loadConversation cid s) = Some cid
   \<and> requests (loadConversation cid s) = requests s @ [Get_conversation cid]"
  by (simp add: loadConversation_def basic_defs Let_def)

lemma sendPrompt_settled_reply:
  "currentConversationId s \<noteq> Some (conversation_id data) \<Longrightarrow>
   currentConversationId (sendPrompt_settled (Ok (Json data)) s) = Some (conversation_id data)
   \<and> requests (sendPrompt_settled (Ok (Json data)) s) = requests s @ [Get_history]
   \<and> inflight (sendPrompt_settled (Ok (Json data)) s) = inflight s @ [HistoryTask]
   \<and> historyList (sendPrompt_settled (Ok (Json data)) s) = [plain_li (ascii ''Loading history...'')]"
  by (simp add: sendPrompt_settled_def basic_defs Let_def plain_li_def)

lemma sendPrompt_settled_same:
  "(case r of Ok (Json data) \<Rightarrow> currentConversationId s = Some (conversation_id data) | _ \<Rightarrow> True) \<Longrightarrow>
   currentConversationId (sendPrompt_settled r s) = currentConversationId s
   \<and> requests (sendPrompt_settled r s) = requests s
   \<and> inflight (sendPrompt_settled r s) = inflight s
   \<and> historyList (sendPrompt_settled r s) = historyList s"
  by (auto simp add: sendPrompt_settled_def basic_defs Let_def split: fetched.splits body.splits)

subsection \<open>Concrete pages\<close>

lemma loaded_page:
  "DOMContentLoaded blank_document =
     blank_document\<lparr>historyList := [plain_li (ascii ''Loading history...'')],
       requests := [Get_history], inflight := [HistoryTask]\<rparr>"
  by (simp add: DOMContentLoaded_def loadHistoryList_def fetch_def blank_document_def)

lemma loaded_page_ready:
  "guarded (DOMContentLoaded blank_document)"
  "\<not> isLoading (DOMContentLoaded blank_document)"
  "chatOutput (DOMContentLoaded blank_document) = []"
  "currentConversationId (DOMContentLoaded blank_document) = None"
  unfolding loaded_page by (simp_all add: guarded_def blank_document_def)

lemma typed_page_ready:
  "guarded (step (Input v) (DOMContentLoaded blank_document))"
  "\<not> isLoading (step (Input v) (DOMContentLoaded blank_document))"
  "chatOutput (step (Input v) (DOMContentLoaded blank_document)) = []"
  "currentConversationId (step (Input v) (DOMContentLoaded blank_document)) = None"
  "promptValue (step (Input v) (DOMContentLoaded blank_document)) = v"
  unfolding loaded_page by (simp_all add: step_def guarded_def blank_document_def)

lemma trim_hi: "trim (ascii ''hi'') = ascii ''hi''"
  by (simp add: trim_def ascii_def isWhiteSpace_def)

lemma hi_not_empty: "ascii ''hi'' \<noteq> []"
  by (simp add: ascii_def)

lemma trim_more: "trim (ascii ''more'') = ascii ''more''" "ascii ''more'' \<noteq> []"
  by (simp_all add: trim_def ascii_def isWhiteSpace_def)

lemma after_first_exchange:
  "run first_exchange (DOMContentLoaded blank_document) =
     \<lparr>chatOutput = [message_div User (ascii ''hi''), message_div Model (ascii ''hello!'')],
      promptValue = ascii ''more'', promptDisabled = False, sendDisabled = False,
      historyList = [history_entry (Some (ascii ''c1''))
         \<lparr>conv_id = ascii ''c1'', summary = ascii ''hi'', last_modified = ascii ''today''\<rparr>],
      currentConversationId = Some (ascii ''c1''), isLoading = False,
      requests = [Get_history, Post_chat (ascii ''hi'') None, Get_history], inflight = []\<rparr>"
  unfolding loaded_page first_exchange_def run_def
  by (simp add: script_defs trim_hi hi_not_empty blank_document_def is_indicator_def
      message_div_def loading_div_def)

section \<open>Loading a conversation the backend does not know\<close>

text \<open>
  C1, corrected: from a state that is not loading, \<^verbatim>\<open>loadConversation(id)\<close> answered
  with status 404 leaves the transcript holding exactly two messages, both of role
  model: the \<^verbatim>\<open>Started a new chat.\<close> placeholder that \<^verbatim>\<open>clearChatOutput\<close> seeds,
  then \<^verbatim>\<open>Error: Conversation not found.\<close>; \<^verbatim>\<open>currentConversationId\<close> is the
  requested id. This holds whatever events come before the call settles.
\<close>

theorem loadConversation_not_found:
  assumes "guarded s" and "\<not> isLoading s" and "\<forall>e\<in>set evs. \<not> settles ConversationTask e"
  shows "chatOutput (step (ConversationSettled (NotOk 404 ())) (run evs (loadConversation cid s)))
           = [message_div Model (ascii ''Started a new chat.''),
              message_div Model (ascii ''Error: Conversation not found.'')]
       \<and> currentConversationId
           (step (ConversationSettled (NotOk 404 ())) (run evs (loadConversation cid s))) = Some cid"
proof -
  let ?s2 = "run evs (loadConversation cid s)"
  from assms(1,2) have "pending ConversationTask (loadConversation cid s)"
    by (simp add: pending_loadConversation)
  with assms(3) have q: "pending ConversationTask ?s2
      \<and> chatOutput ?s2 = chatOutput (loadConversation cid s)
      \<and> currentConversationId ?s2 = currentConversationId (loadConversation cid s)"
    by (simp add: pending_run)
  with assms(2) show ?thesis
    by (simp add: step_settles_conversation loadConversation_fields
        loadConversation_settled_fields)
      (simp add: loadConversation_settled_def basic_defs Let_def is_indicator_def message_div_def)
qed

text \<open>
  C1, counterexample to a transcript of exactly one message: on a freshly loaded
  blank page the transcript after the 404 holds two messages.
\<close>

theorem loadConversation_not_found_counterexample:
  "messages (step (ConversationSettled (NotOk 404 ()))
       (loadConversation (ascii ''c1'') (DOMContentLoaded blank_document)))
     = [message_div Model (ascii ''Started a new chat.''),
        message_div Model (ascii ''Error: Conversation not found.'')]
   \<and> length (messages (step (ConversationSettled (NotOk 404 ()))
       (loadConversation (ascii ''c1'') (DOMContentLoaded blank_document)))) \<noteq> 1"
  unfolding loaded_page
  by (simp add: step_def resume_def loadConversation_def loadConversation_settled_def basic_defs
      Let_def blank_document_def messages_def is_indicator_def message_div_def loading_div_def)

theorem loadConversation_not_found_witness:
  "guarded (DOMContentLoaded blank_document)
   \<and> \<not> isLoading (DOMContentLoaded blank_document)
   \<and> chatOutput (step (ConversationSettled (NotOk 404 ()))
        (run [Send, HistorySettled (NotOk 500 ()), NewChat]
          (loadConversation (ascii ''c1'') (DOMContentLoaded blank_document))))
       = [message_div Model (ascii ''Started a new chat.''),
          message_div Model (ascii ''Error: Conversation not found.'')]
   \<and> currentConversationId (step (ConversationSettled (NotOk 404 ()))
        (run [Send, HistorySettled (NotOk 500 ()), NewChat]
          (loadConversation (ascii ''c1'') (DOMContentLoaded blank_document))))
       = Some (ascii ''c1'')"
proof -
  have h: "\<forall>e\<in>set [Send, HistorySettled (NotOk 500 ()), NewChat]. \<not> settles ConversationTask e"
    by (simp add: settles_def)
  show ?thesis
    using loadConversation_not_found [OF loaded_page_ready(1) loaded_page_ready(2) h, of "ascii ''c1''"]
      loaded_page_ready(1) loaded_page_ready(2)
    by simp
qed

section \<open>Sending a prompt\<close>

text \<open>
  C2: from a state that is not loading, with a prompt that is not empty once trimmed,
  \<^verbatim>\<open>sendPrompt\<close> appends exactly one user message at once; whatever events come
  before the chat call settles, settling it adds exactly one further message, the
  reply on success or one error message on any failure. (\<open>messages\<close> are the
  children of the transcript other than the loading indicator.)
\<close>

theorem sendPrompt_one_user_then_one_answer:
  assumes "guarded s" and "\<not> isLoading s" and "trim (promptValue s) \<noteq> []"
    and "\<forall>e\<in>set evs. \<not> settles ChatTask e"
  shows "messages (sendPrompt s) = messages s @ [message_div User (trim (promptValue s))]
    \<and> messages (step (ChatSettled r) (run evs (sendPrompt s))) =
        messages (sendPrompt s) @
        [message_div Model
          (case r of
             Rejected msg \<Rightarrow> ascii ''Error: '' @ msg
           | NotOk status b \<Rightarrow> ascii ''Error: '' @ error_detail status b
           | Ok (NotJson msg) \<Rightarrow> ascii ''Error: '' @ msg
           | Ok (Json data) \<Rightarrow> response data)]"
proof -
  let ?s1 = "sendPrompt s"
  let ?s2 = "run evs ?s1"
  from assms(1-3) have "pending ChatTask ?s1" by (rule pending_sendPrompt)
  with assms(4) have q: "pending ChatTask ?s2 \<and> chatOutput ?s2 = chatOutput ?s1"
    by (simp add: pending_run)
  then have m: "messages ?s2 = messages ?s1" by (simp add: messages_def)
  from q have "ChatTask \<in> set (inflight ?s2)" by (simp add: pending_in_flight)
  then have "step (ChatSettled r) ?s2
      = sendPrompt_settled r (?s2\<lparr>inflight := remove1 ChatTask (inflight ?s2)\<rparr>)"
    by (simp add: step_def resume_def)
  then show ?thesis
    using m assms(2,3) by (simp add: messages_sendPrompt_settled messages_sendPrompt)
qed

theorem sendPrompt_one_user_then_one_answer_witness:
  "guarded (step (Input (ascii '' hi '')) (DOMContentLoaded blank_document))
   \<and> \<not> isLoading (step (Input (ascii '' hi '')) (DOMContentLoaded blank_document))
   \<and> trim (promptValue (step (Input (ascii '' hi '')) (DOMContentLoaded blank_document))) \<noteq> []
   \<and> messages (step (ChatSettled (NotOk 500 (Json (Some (ascii ''boom'')))))
        (run [Send, NewChat, HistorySettled (Ok (Json []))]
          (sendPrompt (step (Input (ascii '' hi '')) (DOMContentLoaded blank_document)))))
      = [message_div User (ascii ''hi''), message_div Model (ascii ''Error: boom'')]"
proof -
  let ?s = "step (Input (ascii '' hi '')) (DOMContentLoaded blank_document)"
  have s: "?s = blank_document\<lparr>historyList := [plain_li (ascii ''Loading history...'')],
      requests := [Get_history], inflight := [HistoryTask], promptValue := ascii '' hi ''\<rparr>"
    by (simp add: step_def DOMContentLoaded_def loadHistoryList_def fetch_def blank_document_def)
  have t: "trim (promptValue ?s) = ascii ''hi''"
    unfolding s by (simp add: trim_def ascii_def isWhiteSpace_def)
  have h1: "guarded ?s" unfolding s by (simp add: guarded_def blank_document_def)
  have h2: "\<not> isLoading ?s" unfolding s by (simp add: blank_document_def)
  have h3: "trim (promptValue ?s) \<noteq> []" unfolding t by (simp add: ascii_def)
  have h4: "\<forall>e\<in>set [Send, NewChat, HistorySettled (Ok (Json []))]. \<not> settles ChatTask e"
    by (simp add: settles_def)
  have m: "messages ?s = []" unfolding s by (simp add: messages_def blank_document_def)
  have e: "ascii ''Error: '' @ error_detail 500 (Json (Some (ascii ''boom''))) = ascii ''Error: boom''"
    by (simp add: error_detail_def ascii_def)
  show ?thesis
    using sendPrompt_one_user_then_one_answer [OF h1 h2 h3 h4,
        of "NotOk 500 (Json (Some (ascii ''boom'')))"] h1 h2 h3
    by (simp add: m t e)
qed

section \<open>The loading guard\<close>

text \<open>
  C3: while \<^verbatim>\<open>isLoading\<close> is set, \<^verbatim>\<open>sendPrompt\<close>, \<^verbatim>\<open>loadConversation\<close> and
  \<^verbatim>\<open>startNewChat\<close> return the state as it is (transcript, input, conversation id,
  history panel and issued requests included); and in every state the page can reach
  from its load, at most one call to the chat endpoint is in flight.
\<close>

theorem loading_guard:
  "(isLoading s \<longrightarrow> sendPrompt s = s \<and> loadConversation cid s = s \<and> startNewChat s = s)
   \<and> length (filter (\<lambda>t. t = ChatTask) (inflight (run evs (DOMContentLoaded doc)))) \<le> 1"
proof -
  have "guarded (run evs (DOMContentLoaded doc))"
    by (rule guarded_run) (rule guarded_DOMContentLoaded)
  then have "length (filter (\<lambda>t. t = ChatTask) (inflight (run evs (DOMContentLoaded doc)))) \<le> 1"
    by (rule chat_tasks_le)
  then show ?thesis
    by (simp add: sendPrompt_def loadConversation_def startNewChat_def)
qed

theorem loading_guard_witness:
  "isLoading (sendPrompt (step (Input (ascii ''hi'')) (DOMContentLoaded blank_document)))
   \<and> sendPrompt (sendPrompt (step (Input (ascii ''hi'')) (DOMContentLoaded blank_document)))
       = sendPrompt (step (Input (ascii ''hi'')) (DOMContentLoaded blank_document))
   \<and> loadConversation (ascii ''c1'') (sendPrompt (step (Input (ascii ''hi'')) (DOMContentLoaded blank_document)))
       = sendPrompt (step (Input (ascii ''hi'')) (DOMContentLoaded blank_document))
   \<and> startNewChat (sendPrompt (step (Input (ascii ''hi'')) (DOMContentLoaded blank_document)))
       = sendPrompt (step (Input (ascii ''hi'')) (DOMContentLoaded blank_document))
   \<and> length (filter (\<lambda>t. t = ChatTask)
        (inflight (run [Input (ascii ''hi''), Send, Send, Input (ascii ''again''), Send]
           (DOMContentLoaded blank_document)))) \<le> 1"
proof -
  have l: "isLoading (sendPrompt (step (Input (ascii ''hi'')) (DOMContentLoaded blank_document)))"
    by (simp add: sendPrompt_def typed_page_ready trim_hi hi_not_empty Let_def basic_defs)
  show ?thesis
    using loading_guard [of "sendPrompt (step (Input (ascii ''hi'')) (DOMContentLoaded blank_document))"
        "ascii ''c1''" "[Input (ascii ''hi''), Send, Send, Input (ascii ''again''), Send]"
        blank_document] l
    by simp
qed

section \<open>Starting a new chat\<close>

text \<open>
  C4: when not loading, \<^verbatim>\<open>startNewChat\<close> sets \<^verbatim>\<open>currentConversationId\<close> to null,
  leaves exactly the placeholder message in the transcript, empties the input, makes
  every history entry inactive and changes nothing else of it, and issues no request.
\<close>

theorem startNewChat_resets:
  "\<not> isLoading s \<Longrightarrow>
   currentConversationId (startNewChat s) = None
   \<and> chatOutput (startNewChat s) = [message_div Model (ascii ''Started a new chat.'')]
   \<and> promptValue (startNewChat s) = []
   \<and> historyList (startNewChat s) = map (\<lambda>e. e\<lparr>li_active := False\<rparr>) (historyList s)
   \<and> requests (startNewChat s) = requests s
   \<and> inflight (startNewChat s) = inflight s"
  by (simp add: startNewChat_def clearChatOutput_def addMessage_def Let_def)

theorem startNewChat_resets_witness:
  defines "s \<equiv> run first_exchange (DOMContentLoaded blank_document)"
  shows "\<not> isLoading s
   \<and> currentConversationId s = Some (ascii ''c1'')
   \<and> map li_active (historyList s) = [True]
   \<and> currentConversationId (startNewChat s) = None
   \<and> chatOutput (startNewChat s) = [message_div Model (ascii ''Started a new chat.'')]
   \<and> promptValue (startNewChat s) = []
   \<and> map li_active (historyList (startNewChat s)) = [False]
   \<and> requests (startNewChat s) = requests s"
proof -
  have h: "\<not> isLoading s" unfolding s_def after_first_exchange by simp
  have a: "currentConversationId s = Some (ascii ''c1'')"
    "historyList s = [history_entry (Some (ascii ''c1''))
       \<lparr>conv_id = ascii ''c1'', summary = ascii ''hi'', last_modified = ascii ''today''\<rparr>]"
    unfolding s_def after_first_exchange by simp_all
  show ?thesis
    using startNewChat_resets [OF h] h a by (simp add: history_entry_def)
qed

section \<open>Rendering a message\<close>

text \<open>
  C5: for both roles and every text, \<^verbatim>\<open>addMessage\<close> appends one node whose visible
  text is the role's label, a space and the text, character for character; the text
  is the data of a single text node after the \<^verbatim>\<open>strong\<close> label, so no character of
  it is read as markup.
\<close>

theorem addMessage_renders_literal_text:
  "chatOutput (addMessage r txt s) = chatOutput s @ [message_div r txt]
   \<and> textContent (message_div r txt)
       = (case r of User \<Rightarrow> ascii ''You:'' | Model \<Rightarrow> ascii ''Model:'') @ ascii '' '' @ txt
   \<and> div_children (message_div r txt)
       = [Strong (case r of User \<Rightarrow> ascii ''You:'' | Model \<Rightarrow> ascii ''Model:''),
          TextNode (ascii '' '' @ txt)]
   \<and> textContent (message_div User (ascii ''hello'')) = ascii ''You: hello''
   \<and> textContent (message_div User (ascii ''<script>'')) = ascii ''You: <script>''"
  by (cases r) (simp_all add: addMessage_def message_div_def textContent_def child_text_def ascii_def)

section \<open>The first message of a conversation\<close>

text \<open>
  C6: with no current conversation and the prompt \<^verbatim>\<open>hi\<close>, the script posts
  \<^verbatim>\<open>{prompt: "hi", conversation_id: null}\<close>; when the backend answers
  \<^verbatim>\<open>{response: "hello!", conversation_id: "c1"}\<close> the transcript has gained the user
  message \<^verbatim>\<open>hi\<close> and the model message \<^verbatim>\<open>hello!\<close>, the current conversation is
  \<^verbatim>\<open>c1\<close>, the history has been requested again, and once it arrives the entries
  marked active are exactly those of conversation \<^verbatim>\<open>c1\<close>.
\<close>

theorem first_send_adopts_conversation:
  assumes "guarded s" and "\<not> isLoading s" and "currentConversationId s = None"
    and "promptValue s = ascii ''hi''" and "\<forall>e\<in>set evs. \<not> settles ChatTask e"
  shows "requests (sendPrompt s) = requests s @ [Post_chat (ascii ''hi'') None]
    \<and> messages (step (ChatSettled (Ok (Json \<lparr>response = ascii ''hello!'', conversation_id = ascii ''c1''\<rparr>)))
          (run evs (sendPrompt s)))
        = messages s @ [message_div User (ascii ''hi''), message_div Model (ascii ''hello!'')]
    \<and> currentConversationId
          (step (ChatSettled (Ok (Json \<lparr>response = ascii ''hello!'', conversation_id = ascii ''c1''\<rparr>)))
            (run evs (sendPrompt s))) = Some (ascii ''c1'')
    \<and> requests
          (step (ChatSettled (Ok (Json \<lparr>response = ascii ''hello!'', conversation_id = ascii ''c1''\<rparr>)))
            (run evs (sendPrompt s)))
        = requests s @ [Post_chat (ascii ''hi'') None, Get_history]
    \<and> historyList
          (step (ChatSettled (Ok (Json \<lparr>response = ascii ''hello!'', conversation_id = ascii ''c1''\<rparr>)))
            (run evs (sendPrompt s)))
        = [plain_li (ascii ''Loading history...'')]
    \<and> historyList (step (HistorySettled (Ok (Json conversations)))
          (step (ChatSettled (Ok (Json \<lparr>response = ascii ''hello!'', conversation_id = ascii ''c1''\<rparr>)))
            (run evs (sendPrompt s))))
        = (if conversations = [] then [plain_li (ascii ''No past conversations found.'')]
           else map (history_entry (Some (ascii ''c1''))) conversations)
    \<and> li_active (history_entry (Some (ascii ''c1'')) conv) = (conv_id conv = ascii ''c1'')"
proof -
  let ?d = "\<lparr>response = ascii ''hello!'', conversation_id = ascii ''c1''\<rparr>"
  let ?s1 = "sendPrompt s"
  let ?s2 = "run evs ?s1"
  let ?s3 = "step (ChatSettled (Ok (Json ?d))) ?s2"
  have t: "trim (promptValue s) = ascii ''hi''"
    using assms(4) by (simp add: trim_def ascii_def isWhiteSpace_def)
  then have ne: "trim (promptValue s) \<noteq> []" by (simp add: ascii_def)
  from assms(2) ne t assms(3) have f1: "requests ?s1 = requests s @ [Post_chat (ascii ''hi'') None]
      \<and> currentConversationId ?s1 = None"
    by (simp add: sendPrompt_fields)
  from assms(1,2) ne have "pending ChatTask ?s1" by (rule pending_sendPrompt)
  with assms(5) have q: "pending ChatTask ?s2 \<and> chatOutput ?s2 = chatOutput ?s1
      \<and> currentConversationId ?s2 = currentConversationId ?s1 \<and> requests ?s2 = requests ?s1"
    by (simp add: pending_run)
  then have m2: "messages ?s2 = messages ?s1" by (simp add: messages_def)
  let ?s2' = "?s2\<lparr>inflight := remove1 ChatTask (inflight ?s2)\<rparr>"
  from q have s3: "?s3 = sendPrompt_settled (Ok (Json ?d)) ?s2'"
    by (simp add: step_settles_chat)
  from q f1 have "currentConversationId ?s2' \<noteq> Some (conversation_id ?d)" by simp
  then have f3: "currentConversationId (sendPrompt_settled (Ok (Json ?d)) ?s2') = Some (conversation_id ?d)
   \<and> requests (sendPrompt_settled (Ok (Json ?d)) ?s2') = requests ?s2' @ [Get_history]
   \<and> inflight (sendPrompt_settled (Ok (Json ?d)) ?s2') = inflight ?s2' @ [HistoryTask]
   \<and> historyList (sendPrompt_settled (Ok (Json ?d)) ?s2') = [plain_li (ascii ''Loading history...'')]"
    by (rule sendPrompt_settled_reply)
  have c1: "requests ?s1 = requests s @ [Post_chat (ascii ''hi'') None]" using f1 by simp
  have c2: "messages ?s3 = messages s @ [message_div User (ascii ''hi''), message_div Model (ascii ''hello!'')]"
    using m2 assms(2) ne t by (simp add: s3 messages_sendPrompt_settled messages_sendPrompt)
  have c3: "currentConversationId ?s3 = Some (ascii ''c1'')" using f3 by (simp add: s3)
  have c4: "requests ?s3 = requests s @ [Post_chat (ascii ''hi'') None, Get_history]"
    using f3 q f1 by (simp add: s3)
  have c5: "historyList ?s3 = [plain_li (ascii ''Loading history...'')]" using f3 by (simp add: s3)
  have "HistoryTask \<in> set (inflight ?s3)" using f3 by (simp add: s3)
  then have "step (HistorySettled (Ok (Json conversations))) ?s3
      = loadHistoryList_settled (Ok (Json conversations))
          (?s3\<lparr>inflight := remove1 HistoryTask (inflight ?s3)\<rparr>)"
    by (simp add: step_def resume_def)
  then have c6: "historyList (step (HistorySettled (Ok (Json conversations))) ?s3)
        = (if conversations = [] then [plain_li (ascii ''No past conversations found.'')]
           else map (history_entry (Some (ascii ''c1''))) conversations)"
    using c3 by (simp add: historyList_loaded)
  have c7: "li_active (history_entry (Some (ascii ''c1'')) conv) = (conv_id conv = ascii ''c1'')"
    by (simp add: history_entry_def)
  from c1 c2 c3 c4 c5 c6 c7 show ?thesis by blast
qed

theorem first_send_adopts_conversation_witness:
  defines "s \<equiv> step (Input (ascii ''hi'')) (DOMContentLoaded blank_document)"
    and "answer \<equiv> ChatSettled (Ok (Json \<lparr>response = ascii ''hello!'', conversation_id = ascii ''c1''\<rparr>))"
    and "listed \<equiv> HistorySettled (Ok (Json [\<lparr>conv_id = ascii ''c0'', summary = ascii ''old'',
           last_modified = ascii ''yesterday''\<rparr>,
         \<lparr>conv_id = ascii ''c1'', summary = ascii ''hi'', last_modified = ascii ''today''\<rparr>]))"
  shows "guarded s \<and> \<not> isLoading s \<and> currentConversationId s = None
    \<and> promptValue s = ascii ''hi''
    \<and> requests (sendPrompt s) = requests s @ [Post_chat (ascii ''hi'') None]
    \<and> messages (step answer (run [HistorySettled (Ok (Json []))] (sendPrompt s)))
        = [message_div User (ascii ''hi''), message_div Model (ascii ''hello!'')]
    \<and> currentConversationId (step answer (run [HistorySettled (Ok (Json []))] (sendPrompt s)))
        = Some (ascii ''c1'')
    \<and> requests (step answer (run [HistorySettled (Ok (Json []))] (sendPrompt s)))
        = [Get_history, Post_chat (ascii ''hi'') None, Get_history]
    \<and> map li_active
         (historyList (step listed (step answer (run [HistorySettled (Ok (Json []))] (sendPrompt s)))))
        = [False, True]"
proof -
  have h1: "guarded s" and h2: "\<not> isLoading s" and h3: "currentConversationId s = None"
    and h4: "promptValue s = ascii ''hi''"
    unfolding s_def by (simp_all add: typed_page_ready)
  have h5: "\<forall>e\<in>set [HistorySettled (Ok (Json []))]. \<not> settles ChatTask e"
    by (simp add: settles_def)
  have m: "messages s = []" "requests s = [Get_history]"
    unfolding s_def loaded_page by (simp_all add: step_def messages_def blank_document_def)
  have c: "ascii ''c0'' \<noteq> ascii ''c1''" by (simp add: ascii_def)
  show ?thesis
    using first_send_adopts_conversation [OF h1 h2 h3 h4 h5,
        of "[\<lparr>conv_id = ascii ''c0'', summary = ascii ''old'', last_modified = ascii ''yesterday''\<rparr>,
         \<lparr>conv_id = ascii ''c1'', summary = ascii ''hi'', last_modified = ascii ''today''\<rparr>]"]
      h1 h2 h3 h4
    unfolding answer_def listed_def
    by (simp add: m c history_entry_def)
qed

section \<open>Rendering the history\<close>

text \<open>
  C7: with the same answer of the backend, loading the history list twice renders the
  same list as loading it once, entries, order and active marks alike; so does
  starting both loads before either answer arrives.
\<close>

theorem loadHistoryList_idempotent:
  "historyList (loadHistoryList_settled r (loadHistoryList (loadHistoryList_settled r (loadHistoryList s))))
     = historyList (loadHistoryList_settled r (loadHistoryList s))
   \<and> historyList (loadHistoryList_settled r (loadHistoryList_settled r (loadHistoryList (loadHistoryList s))))
     = historyList (loadHistoryList_settled r (loadHistoryList s))"
  by (simp add: historyList_loaded history_settled_frame loadHistoryList_def fetch_def
      split: fetched.splits body.splits)

section \<open>Loading is always cleared\<close>

text \<open>
  C8: from a state that is not loading and shows no indicator, whatever the outcome
  of the call (a reply, a status that is not ok, a body that is not JSON, a rejected
  fetch) and whatever events come first, once the call of \<^verbatim>\<open>sendPrompt\<close> or of
  \<^verbatim>\<open>loadConversation\<close> settles the page is idle: \<^verbatim>\<open>isLoading\<close> is false, no loading
  indicator is left, and the send button and the input are enabled.
\<close>

theorem loading_always_cleared:
  assumes "guarded s" and "\<not> isLoading s" and "filter is_indicator (chatOutput s) = []"
  shows "(trim (promptValue s) \<noteq> [] \<and> (\<forall>e\<in>set evs. \<not> settles ChatTask e)
            \<longrightarrow> idle (step (ChatSettled r) (run evs (sendPrompt s))))
       \<and> ((\<forall>e\<in>set evs'. \<not> settles ConversationTask e)
            \<longrightarrow> idle (step (ConversationSettled r') (run evs' (loadConversation cid s))))"
proof (intro conjI impI)
  assume a: "trim (promptValue s) \<noteq> [] \<and> (\<forall>e\<in>set evs. \<not> settles ChatTask e)"
  let ?s2 = "run evs (sendPrompt s)"
  from assms(1,2) a have "pending ChatTask (sendPrompt s)" by (simp add: pending_sendPrompt)
  with a have q: "pending ChatTask ?s2 \<and> chatOutput ?s2 = chatOutput (sendPrompt s)"
    by (simp add: pending_run)
  with assms(2,3) a have "length (filter is_indicator (chatOutput ?s2)) \<le> 1"
    by (simp add: chatOutput_sendPrompt)
  then have "filter is_indicator
      (chatOutput (sendPrompt_settled r (?s2\<lparr>inflight := remove1 ChatTask (inflight ?s2)\<rparr>))) = []"
    by (simp add: indicators_sendPrompt_settled)
  with q show "idle (step (ChatSettled r) ?s2)"
    by (simp add: step_settles_chat idle_def sendPrompt_settled_fields)
next
  assume a: "\<forall>e\<in>set evs'. \<not> settles ConversationTask e"
  let ?s2 = "run evs' (loadConversation cid s)"
  from assms(1,2) have "pending ConversationTask (loadConversation cid s)"
    by (simp add: pending_loadConversation)
  with a have q: "pending ConversationTask ?s2
      \<and> chatOutput ?s2 = chatOutput (loadConversation cid s)"
    by (simp add: pending_run)
  with assms(2) have "filter is_indicator (chatOutput ?s2) = []"
    by (simp add: loadConversation_fields)
  then have "filter is_indicator (chatOutput (loadConversation_settled r'
      (?s2\<lparr>inflight := remove1 ConversationTask (inflight ?s2)\<rparr>))) = []"
    by (simp add: indicators_loadConversation_settled)
  with q show "idle (step (ConversationSettled r') ?s2)"
    by (simp add: step_settles_conversation idle_def loadConversation_settled_fields)
qed

theorem loading_always_cleared_witness:
  defines "s \<equiv> step (Input (ascii ''hi'')) (DOMContentLoaded blank_document)"
  shows "guarded s \<and> \<not> isLoading s \<and> filter is_indicator (chatOutput s) = []
    \<and> trim (promptValue s) \<noteq> []
    \<and> idle (step (ChatSettled (Rejected (ascii ''Failed to fetch''))) (run [Send, NewChat] (sendPrompt s)))
    \<and> idle (step (ConversationSettled (NotOk 500 ()))
         (run [HistorySettled (Ok (Json []))] (loadConversation (ascii ''c1'') s)))"
proof -
  have h1: "guarded s" and h2: "\<not> isLoading s" and h3: "filter is_indicator (chatOutput s) = []"
    and h4: "trim (promptValue s) \<noteq> []"
    unfolding s_def by (simp_all add: typed_page_ready trim_hi hi_not_empty)
  have h5: "\<forall>e\<in>set [Send, NewChat]. \<not> settles ChatTask e"
    and h6: "\<forall>e\<in>set [HistorySettled (Ok (Json []))]. \<not> settles ConversationTask e"
    by (simp_all add: settles_def)
  show ?thesis
    using loading_always_cleared [OF h1 h2 h3, of "[Send, NewChat]"
        "Rejected (ascii ''Failed to fetch'')" "[HistorySettled (Ok (Json []))]" "NotOk 500 ()"
        "ascii ''c1''"] h1 h2 h3 h4 h5 h6
    by blast
qed

section \<open>Error messages of a failed send\<close>

text \<open>
  C9, corrected: when a send is answered with a status that is not ok, exactly one
  model message is appended; its text is \<^verbatim>\<open>Error: \<close> followed by the body's
  \<^verbatim>\<open>detail\<close> when the body is JSON with a detail that is not the empty string, and
  \<^verbatim>\<open>Error: HTTP error! status: \<close> followed by the status in every other case (a
  body that is not JSON, no detail, an empty detail).
\<close>

theorem send_error_message:
  assumes "ChatTask \<in> set (inflight s)"
  shows "messages (step (ChatSettled (NotOk status b)) s) = messages s @
     [message_div Model
        (case b of
           Json (Some detail) \<Rightarrow>
             if detail = [] then ascii ''Error: HTTP error! status: '' @ decimal status
             else ascii ''Error: '' @ detail
         | _ \<Rightarrow> ascii ''Error: HTTP error! status: '' @ decimal status)]"
  using assms
  by (simp add: step_def resume_def messages_sendPrompt_settled error_detail_def ascii_def
      split: body.splits option.splits)

text \<open>
  C9, counterexample to the detail always being shown and to the generic text
  \<^verbatim>\<open>HTTP error: 500\<close>: a body whose detail is the empty string gets the generic
  message, not its detail; and the generic message reads
  \<^verbatim>\<open>Error: HTTP error! status: 500\<close>, which does not contain \<^verbatim>\<open>HTTP error: 500\<close>.
\<close>

theorem send_error_message_counterexample:
  defines "s \<equiv> sendPrompt (step (Input (ascii ''hi'')) (DOMContentLoaded blank_document))"
  shows "map textContent (messages (step (ChatSettled (NotOk 500 (Json (Some [])))) s))
        = [ascii ''You: hi'', ascii ''Model: Error: HTTP error! status: 500'']
    \<and> map textContent (messages (step (ChatSettled (NotOk 500 (NotJson (ascii ''Unexpected token <'')))) s))
        = [ascii ''You: hi'', ascii ''Model: Error: HTTP error! status: 500'']
    \<and> \<not> sublist (ascii ''HTTP error: 500'') (ascii ''Model: Error: HTTP error! status: 500'')"
proof -
  have s: "s = blank_document\<lparr>chatOutput := [loading_div, message_div User (ascii ''hi'')],
      historyList := [plain_li (ascii ''Loading history...'')],
      promptDisabled := True, sendDisabled := True, isLoading := True,
      requests := [Get_history, Post_chat (ascii ''hi'') None],
      inflight := [HistoryTask, ChatTask]\<rparr>"
    unfolding s_def loaded_page
    by (simp add: step_def sendPrompt_def basic_defs Let_def trim_hi hi_not_empty blank_document_def)
  have d: "decimal 500 = ascii ''500''" by (simp add: decimal.simps ascii_def)
  have a: "map textContent (messages (step (ChatSettled (NotOk 500 (Json (Some [])))) s))
        = [ascii ''You: hi'', ascii ''Model: Error: HTTP error! status: 500'']"
    unfolding s
    by (simp add: step_def resume_def messages_sendPrompt_settled error_detail_def d)
      (simp add: messages_def message_div_def textContent_def child_text_def ascii_def
        is_indicator_def loading_div_def)
  have b: "map textContent (messages (step (ChatSettled (NotOk 500 (NotJson (ascii ''Unexpected token <'')))) s))
        = [ascii ''You: hi'', ascii ''Model: Error: HTTP error! status: 500'']"
    unfolding s
    by (simp add: step_def resume_def messages_sendPrompt_settled error_detail_def d)
      (simp add: messages_def message_div_def textContent_def child_text_def ascii_def
        is_indicator_def loading_div_def)
  have c: "\<not> sublist (ascii ''HTTP error: 500'') (ascii ''Model: Error: HTTP error! status: 500'')"
    by (simp add: ascii_def sublist_Cons_right)
  from a b c show ?thesis by blast
qed

theorem send_error_message_witness:
  defines "s \<equiv> sendPrompt (step (Input (ascii ''hi'')) (DOMContentLoaded blank_document))"
  shows "ChatTask \<in> set (inflight s)
    \<and> messages (step (ChatSettled (NotOk 422 (Json (Some (ascii ''bad input''))))) s)
        = [message_div User (ascii ''hi''), message_div Model (ascii ''Error: bad input'')]
    \<and> messages (step (ChatSettled (NotOk 502 (NotJson (ascii ''Unexpected token <'')))) s)
        = [message_div User (ascii ''hi''),
           message_div Model (ascii ''Error: HTTP error! status: 502'')]"
proof -
  have s: "s = blank_document\<lparr>chatOutput := [loading_div, message_div User (ascii ''hi'')],
      historyList := [plain_li (ascii ''Loading history...'')],
      promptDisabled := True, sendDisabled := True, isLoading := True,
      requests := [Get_history, Post_chat (ascii ''hi'') None],
      inflight := [HistoryTask, ChatTask]\<rparr>"
    unfolding s_def loaded_page
    by (simp add: step_def sendPrompt_def basic_defs Let_def trim_hi hi_not_empty blank_document_def)
  have h: "ChatTask \<in> set (inflight s)" unfolding s by simp
  have m: "messages s = [message_div User (ascii ''hi'')]"
    unfolding s by (simp add: messages_def)
  have e1: "ascii ''bad input'' \<noteq> []" "ascii ''Error: '' @ ascii ''bad input'' = ascii ''Error: bad input''"
    by (simp_all add: ascii_def)
  have e2: "ascii ''Error: HTTP error! status: '' @ decimal 502 = ascii ''Error: HTTP error! status: 502''"
    by (simp add: decimal.simps ascii_def)
  show ?thesis
    using send_error_message [OF h, of 422 "Json (Some (ascii ''bad input''))"]
      send_error_message [OF h, of 502 "NotJson (ascii ''Unexpected token <'')"] h
    by (simp add: m e1 e2)
qed

section \<open>When the history is refreshed\<close>

text \<open>
  C10: a send leaves the history panel as it is until its call settles; when the reply
  carries the current conversation id, or the call fails, settling it issues no
  request, leaves the history list unchanged and starts no history fetch; when the
  reply carries another id, and only then, the history is requested again.
\<close>

theorem history_refreshed_only_for_new_id:
  assumes "guarded s" and "\<not> isLoading s" and "trim (promptValue s) \<noteq> []"
    and "\<forall>e\<in>set evs. \<not> settles ChatTask e"
  shows "historyList (sendPrompt s) = historyList s
    \<and> currentConversationId (run evs (sendPrompt s)) = currentConversationId s
    \<and> (if (case r of Ok (Json data) \<Rightarrow> currentConversationId s \<noteq> Some (conversation_id data)
                    | _ \<Rightarrow> False)
        then requests (step (ChatSettled r) (run evs (sendPrompt s)))
               = requests (run evs (sendPrompt s)) @ [Get_history]
           \<and> historyList (step (ChatSettled r) (run evs (sendPrompt s)))
               = [plain_li (ascii ''Loading history...'')]
        else requests (step (ChatSettled r) (run evs (sendPrompt s)))
               = requests (run evs (sendPrompt s))
           \<and> historyList (step (ChatSettled r) (run evs (sendPrompt s)))
               = historyList (run evs (sendPrompt s))
           \<and> length (filter (\<lambda>t. t = HistoryTask) (inflight (step (ChatSettled r) (run evs (sendPrompt s)))))
               = length (filter (\<lambda>t. t = HistoryTask) (inflight (run evs (sendPrompt s)))))"
proof -
  let ?s1 = "sendPrompt s"
  let ?s2 = "run evs ?s1"
  let ?s2' = "?s2\<lparr>inflight := remove1 ChatTask (inflight ?s2)\<rparr>"
  from assms(1-3) have "pending ChatTask ?s1" by (rule pending_sendPrompt)
  with assms(4) have q: "pending ChatTask ?s2
      \<and> currentConversationId ?s2 = currentConversationId ?s1"
    by (simp add: pending_run)
  then have s3: "\<And>r. step (ChatSettled r) ?s2 = sendPrompt_settled r ?s2'"
    by (simp add: step_settles_chat)
  from assms(2,3) have f1: "currentConversationId ?s1 = currentConversationId s
      \<and> historyList ?s1 = historyList s"
    by (simp add: sendPrompt_fields)
  with q have cur: "currentConversationId ?s2' = currentConversationId s" by simp
  show ?thesis
  proof (cases "case r of Ok (Json data) \<Rightarrow> currentConversationId s \<noteq> Some (conversation_id data)
                    | _ \<Rightarrow> False")
    case True
    then obtain data where r: "r = Ok (Json data)"
      and d: "currentConversationId s \<noteq> Some (conversation_id data)"
      by (auto split: fetched.splits body.splits)
    from d cur have "currentConversationId ?s2' \<noteq> Some (conversation_id data)" by simp
    then have "requests (sendPrompt_settled (Ok (Json data)) ?s2') = requests ?s2' @ [Get_history]
        \<and> historyList (sendPrompt_settled (Ok (Json data)) ?s2') = [plain_li (ascii ''Loading history...'')]"
      by (simp add: sendPrompt_settled_reply)
    with True f1 q show ?thesis by (simp add: s3 r)
  next
    case False
    then have "case r of Ok (Json data) \<Rightarrow> currentConversationId ?s2' = Some (conversation_id data)
                 | _ \<Rightarrow> True"
      using cur by (auto split: fetched.splits body.splits)
    then have "currentConversationId (sendPrompt_settled r ?s2') = currentConversationId ?s2'
        \<and> requests (sendPrompt_settled r ?s2') = requests ?s2'
        \<and> inflight (sendPrompt_settled r ?s2') = inflight ?s2'
        \<and> historyList (sendPrompt_settled r ?s2') = historyList ?s2'"
      by (rule sendPrompt_settled_same)
    with False f1 q show ?thesis by (simp add: s3 filter_remove1)
  qed
qed

theorem history_refreshed_only_for_new_id_witness:
  defines "s \<equiv> run first_exchange (DOMContentLoaded blank_document)"
  shows "guarded s \<and> \<not> isLoading s \<and> trim (promptValue s) \<noteq> []
    \<and> currentConversationId s = Some (ascii ''c1'')
    \<and> requests (step (ChatSettled (Ok (Json \<lparr>response = ascii ''again'', conversation_id = ascii ''c1''\<rparr>)))
          (run [Send, NewChat] (sendPrompt s)))
        = requests (run [Send, NewChat] (sendPrompt s))
    \<and> historyList (step (ChatSettled (Ok (Json \<lparr>response = ascii ''again'', conversation_id = ascii ''c1''\<rparr>)))
          (run [Send, NewChat] (sendPrompt s)))
        = historyList (run [Send, NewChat] (sendPrompt s))
    \<and> requests (step (ChatSettled (Ok (Json \<lparr>response = ascii ''again'', conversation_id = ascii ''c2''\<rparr>)))
          (run [Send, NewChat] (sendPrompt s)))
        = requests (run [Send, NewChat] (sendPrompt s)) @ [Get_history]"
proof -
  have h1: "guarded s" and h2: "\<not> isLoading s" and h3: "trim (promptValue s) \<noteq> []"
    and c: "currentConversationId s = Some (ascii ''c1'')"
    unfolding s_def after_first_exchange by (simp_all add: guarded_def trim_more)
  have h4: "\<forall>e\<in>set [Send, NewChat]. \<not> settles ChatTask e"
    by (simp add: settles_def)
  have d: "ascii ''c1'' \<noteq> ascii ''c2''" by (simp add: ascii_def)
  show ?thesis
    using history_refreshed_only_for_new_id [OF h1 h2 h3 h4,
        of "Ok (Json \<lparr>response = ascii ''again'', conversation_id = ascii ''c1''\<rparr>)"]
      history_refreshed_only_for_new_id [OF h1 h2 h3 h4,
        of "Ok (Json \<lparr>response = ascii ''again'', conversation_id = ascii ''c2''\<rparr>)"]
      h1 h2 h3 c d
    by simp
qed

end
